theory Spec2Isabelle
  imports Complex_Main
begin

section \<open>SPH momentum formulations (Monaghan and Adami)\<close>

text \<open>
  Shallow embedding of \<^verbatim>\<open>ParticleInteraction::SPHMomentumFormulationMonaghan\<close> and
  \<^verbatim>\<open>ParticleInteraction::SPHMomentumFormulationAdami\<close>.

  \<^item> A \<^verbatim>\<open>double\<close> is a \<^typ>\<open>real\<close>: the arithmetic is exact, so rounding, overflow,
    infinities and NaN are outside the model.
  \<^item> A \<^verbatim>\<open>const double*\<close> that the code dereferences at index 0 without a test
    (\<^verbatim>\<open>dens_i\<close>, \<^verbatim>\<open>mass_i\<close>, \<^verbatim>\<open>press_i\<close>, ...) is the \<^typ>\<open>real\<close> it points to.
  \<^item> A three-component buffer \<^verbatim>\<open>double[3]\<close> is a triple of reals.
  \<^item> A pointer that the code tests before use (\<^verbatim>\<open>acc_i\<close>, \<^verbatim>\<open>acc_j\<close>, \<^verbatim>\<open>mod_acc_i\<close>,
    \<^verbatim>\<open>mod_acc_j\<close>, \<^verbatim>\<open>mod_vel_i\<close>, \<^verbatim>\<open>mod_vel_j\<close>, \<^verbatim>\<open>speccoeff_ij\<close>,
    \<^verbatim>\<open>speccoeff_ji\<close>) is an \<^typ>\<open>'a option\<close>: \<^term>\<open>None\<close> is the null pointer,
    \<^term>\<open>Some v\<close> a buffer holding \<open>v\<close>.
  \<^item> Each operation takes the content of its output buffers and returns their content
    after the call. The buffers of one call are taken to be pairwise distinct and distinct
    from the read-only inputs.
  \<^item> \<^verbatim>\<open>FOUR_C_THROW\<close> is an outcome of its own, carrying the message and the content of
    the output buffers at the moment of the throw.
\<close>

type_synonym vec = "real \<times> real \<times> real"

datatype formulation = Monaghan | Adami

datatype error = FOUR_C_THROW string

datatype 'm outcome = Returns 'm | Throws error 'm

fun mem_of :: "'m outcome \<Rightarrow> 'm" where
  "mem_of (Returns m) = m"
| "mem_of (Throws e m) = m"

fun throws :: "'m outcome \<Rightarrow> bool" where
  "throws (Returns m) = False"
| "throws (Throws e m) = True"

subsection \<open>Helpers of \<^verbatim>\<open>4C_particle_interaction_utils.hpp\<close>\<close>

text \<open>Modelled from the spec: \<^verbatim>\<open>Utils::pow<2>\<close> is not among the sources; the spec
  reads it as the square ("summed squared-volume prefactor", "density squared normalization").\<close>

definition pow_2 :: "real \<Rightarrow> real" where
  "pow_2 x = x * x"

text \<open>Modelled from the spec: \<^verbatim>\<open>Utils::vec_set(c, a)\<close> is not among the sources; the spec
  lists it with the fixed-size 3-component vector math. It stores \<open>a\<close> into \<open>c\<close>; the
  function returns the new content of \<open>c\<close>.\<close>

fun vec_set :: "vec \<Rightarrow> vec" where
  "vec_set (a0, a1, a2) = (a0, a1, a2)"

text \<open>Modelled from the spec: \<^verbatim>\<open>Utils::vec_sub(c, a)\<close> is not among the sources; it
  subtracts \<open>a\<close> from \<open>c\<close> in place (the code forms \<open>vel_i - vel_j\<close> with it).\<close>

fun vec_sub :: "vec \<Rightarrow> vec \<Rightarrow> vec" where
  "vec_sub (c0, c1, c2) (a0, a1, a2) = (c0 - a0, c1 - a1, c2 - a2)"

text \<open>Modelled from the spec: \<^verbatim>\<open>Utils::vec_add_scale(c, fac, a)\<close> is not among the sources;
  the spec says that each operation adds into its accumulators and never overwrites them,
  so it adds \<open>fac * a\<close> to \<open>c\<close> in place.\<close>

fun vec_add_scale :: "vec \<Rightarrow> real \<Rightarrow> vec \<Rightarrow> vec" where
  "vec_add_scale (c0, c1, c2) fac (a0, a1, a2) = (c0 + fac * a0, c1 + fac * a1, c2 + fac * a2)"

text \<open>Modelled from the spec: \<^verbatim>\<open>Utils::vec_dot(a, b)\<close> is not among the sources; it is the
  scalar product (the spec: "projected along \<open>e_ij\<close>").\<close>

fun vec_dot :: "vec \<Rightarrow> vec \<Rightarrow> real" where
  "vec_dot (a0, a1, a2) (b0, b1, b2) = a0 * b0 + a1 * b1 + a2 * b2"

subsection \<open>Monaghan\<close>

definition Monaghan_specific_coefficient ::
  "real \<Rightarrow> real \<Rightarrow> real \<Rightarrow> real \<Rightarrow> real \<Rightarrow> real \<Rightarrow> real option \<Rightarrow> real option
    \<Rightarrow> real option \<times> real option" where
  "Monaghan_specific_coefficient dens_i dens_j mass_i mass_j dWdrij dWdrji speccoeff_ij speccoeff_ji =
     (let speccoeff_ij = (case speccoeff_ij of None \<Rightarrow> None | Some _ \<Rightarrow> Some (dWdrij * mass_j));
          speccoeff_ji = (case speccoeff_ji of None \<Rightarrow> None | Some _ \<Rightarrow> Some (dWdrji * mass_i))
      in (speccoeff_ij, speccoeff_ji))"

definition Monaghan_pressure_gradient ::
  "real \<Rightarrow> real \<Rightarrow> real \<Rightarrow> real \<Rightarrow> real \<Rightarrow> real \<Rightarrow> vec \<Rightarrow> vec option \<Rightarrow> vec option
    \<Rightarrow> vec option \<times> vec option" where
  "Monaghan_pressure_gradient dens_i dens_j press_i press_j speccoeff_ij speccoeff_ji e_ij acc_i acc_j =
     (let fac = (press_i / pow_2 dens_i + press_j / pow_2 dens_j);
          acc_i = (case acc_i of None \<Rightarrow> None
                   | Some a \<Rightarrow> Some (vec_add_scale a (- speccoeff_ij * fac) e_ij));
          acc_j = (case acc_j of None \<Rightarrow> None
                   | Some a \<Rightarrow> Some (vec_add_scale a (speccoeff_ji * fac) e_ij))
      in (acc_i, acc_j))"

definition Monaghan_shear_forces ::
  "real \<Rightarrow> real \<Rightarrow> vec \<Rightarrow> vec \<Rightarrow> real \<Rightarrow> real \<Rightarrow> real \<Rightarrow> real \<Rightarrow> real \<Rightarrow> real \<Rightarrow> real \<Rightarrow> real
    \<Rightarrow> vec \<Rightarrow> vec option \<Rightarrow> vec option \<Rightarrow> (vec option \<times> vec option) outcome" where
  "Monaghan_shear_forces dens_i dens_j vel_i vel_j kernelfac visc_i visc_j bulk_visc_i bulk_visc_j
      abs_rij speccoeff_ij speccoeff_ji e_ij acc_i acc_j =
     (let scaled_viscosity =
            (if visc_i > 0 \<and> visc_j > 0 then 2 * visc_i * visc_j / (3 * (visc_i + visc_j)) else 0);
          bulk_viscosity =
            (if bulk_visc_i > 0 \<and> bulk_visc_j > 0
             then 2 * bulk_visc_i * bulk_visc_j / (bulk_visc_i + bulk_visc_j) else 0);
          convection_coeff = kernelfac * (bulk_viscosity + scaled_viscosity);
          diffusion_coeff = 5 * scaled_viscosity - bulk_viscosity
      in if diffusion_coeff < 0
         then Throws (FOUR_C_THROW ''diffusion coefficient is negative!'') (acc_i, acc_j)
         else
           (let vel_ij = vec_set vel_i;
                vel_ij = vec_sub vel_ij vel_j;
                inv_densi_densj_absdist = 1 / (dens_i * dens_j * abs_rij);
                fac_diff = diffusion_coeff * inv_densi_densj_absdist;
                acc_i = (case acc_i of None \<Rightarrow> None
                         | Some a \<Rightarrow> Some (vec_add_scale a (speccoeff_ij * fac_diff) vel_ij));
                acc_j = (case acc_j of None \<Rightarrow> None
                         | Some a \<Rightarrow> Some (vec_add_scale a (- speccoeff_ji * fac_diff) vel_ij));
                fac_conv = convection_coeff * vec_dot vel_ij e_ij * inv_densi_densj_absdist;
                acc_i = (case acc_i of None \<Rightarrow> None
                         | Some a \<Rightarrow> Some (vec_add_scale a (speccoeff_ij * fac_conv) e_ij));
                acc_j = (case acc_j of None \<Rightarrow> None
                         | Some a \<Rightarrow> Some (vec_add_scale a (- speccoeff_ji * fac_conv) e_ij))
            in Returns (acc_i, acc_j)))"

definition Monaghan_standard_background_pressure ::
  "real \<Rightarrow> real \<Rightarrow> real \<Rightarrow> real \<Rightarrow> real \<Rightarrow> real \<Rightarrow> vec \<Rightarrow> vec option \<Rightarrow> vec option
    \<Rightarrow> vec option \<times> vec option" where
  "Monaghan_standard_background_pressure dens_i dens_j bg_press_i bg_press_j speccoeff_ij
      speccoeff_ji e_ij mod_acc_i mod_acc_j =
     (let fac = (1 / pow_2 dens_i + 1 / pow_2 dens_j);
          mod_acc_i = (case mod_acc_i of None \<Rightarrow> None
                       | Some a \<Rightarrow> Some (vec_add_scale a (- speccoeff_ij * bg_press_i * fac) e_ij));
          mod_acc_j = (case mod_acc_j of None \<Rightarrow> None
                       | Some a \<Rightarrow> Some (vec_add_scale a (speccoeff_ji * bg_press_j * fac) e_ij))
      in (mod_acc_i, mod_acc_j))"

definition Monaghan_generalized_background_pressure ::
  "real \<Rightarrow> real \<Rightarrow> real \<Rightarrow> real \<Rightarrow> real \<Rightarrow> real \<Rightarrow> real \<Rightarrow> real \<Rightarrow> vec \<Rightarrow> vec option \<Rightarrow> vec option
    \<Rightarrow> vec option \<times> vec option" where
  "Monaghan_generalized_background_pressure dens_i dens_j mass_i mass_j mod_bg_press_i
      mod_bg_press_j mod_dWdrij mod_dWdrji e_ij mod_acc_i mod_acc_j =
     (let mod_acc_i = (case mod_acc_i of None \<Rightarrow> None
                       | Some a \<Rightarrow> Some (vec_add_scale a
                           (- mod_bg_press_i * (mass_j / pow_2 dens_i) * mod_dWdrij) e_ij));
          mod_acc_j = (case mod_acc_j of None \<Rightarrow> None
                       | Some a \<Rightarrow> Some (vec_add_scale a
                           (mod_bg_press_j * (mass_i / pow_2 dens_j) * mod_dWdrji) e_ij))
      in (mod_acc_i, mod_acc_j))"

definition Monaghan_modified_velocity_contribution ::
  "real \<Rightarrow> real \<Rightarrow> vec \<Rightarrow> vec \<Rightarrow> vec option \<Rightarrow> vec option \<Rightarrow> real \<Rightarrow> real \<Rightarrow> vec
    \<Rightarrow> vec option \<Rightarrow> vec option \<Rightarrow> vec option \<times> vec option" where
  "Monaghan_modified_velocity_contribution dens_i dens_j vel_i vel_j mod_vel_i mod_vel_j
      speccoeff_ij speccoeff_ji e_ij acc_i acc_j =
     (let A_ij_e_ij = (0, 0, 0);
          A_ij_e_ij = (case mod_vel_i of None \<Rightarrow> A_ij_e_ij
                       | Some mv \<Rightarrow>
                           (let modvel_ii = vec_set mv;
                                modvel_ii = vec_sub modvel_ii vel_i
                            in vec_add_scale A_ij_e_ij (vec_dot modvel_ii e_ij / dens_i) vel_i));
          A_ij_e_ij = (case mod_vel_j of None \<Rightarrow> A_ij_e_ij
                       | Some mv \<Rightarrow>
                           (let modvel_jj = vec_set mv;
                                modvel_jj = vec_sub modvel_jj vel_j
                            in vec_add_scale A_ij_e_ij (vec_dot modvel_jj e_ij / dens_j) vel_j));
          acc_i = (case acc_i of None \<Rightarrow> None
                   | Some a \<Rightarrow> Some (vec_add_scale a speccoeff_ij A_ij_e_ij));
          acc_j = (case acc_j of None \<Rightarrow> None
                   | Some a \<Rightarrow> Some (vec_add_scale a (- speccoeff_ji) A_ij_e_ij))
      in (acc_i, acc_j))"

subsection \<open>Adami\<close>

definition Adami_specific_coefficient ::
  "real \<Rightarrow> real \<Rightarrow> real \<Rightarrow> real \<Rightarrow> real \<Rightarrow> real \<Rightarrow> real option \<Rightarrow> real option
    \<Rightarrow> real option \<times> real option" where
  "Adami_specific_coefficient dens_i dens_j mass_i mass_j dWdrij dWdrji speccoeff_ij speccoeff_ji =
     (let fac = (pow_2 (mass_i / dens_i) + pow_2 (mass_j / dens_j));
          speccoeff_ij = (case speccoeff_ij of None \<Rightarrow> None
                          | Some _ \<Rightarrow> Some (fac * (dWdrij / mass_i)));
          speccoeff_ji = (case speccoeff_ji of None \<Rightarrow> None
                          | Some _ \<Rightarrow> Some (fac * (dWdrji / mass_j)))
      in (speccoeff_ij, speccoeff_ji))"

definition Adami_pressure_gradient ::
  "real \<Rightarrow> real \<Rightarrow> real \<Rightarrow> real \<Rightarrow> real \<Rightarrow> real \<Rightarrow> vec \<Rightarrow> vec option \<Rightarrow> vec option
    \<Rightarrow> vec option \<times> vec option" where
  "Adami_pressure_gradient dens_i dens_j press_i press_j speccoeff_ij speccoeff_ji e_ij acc_i acc_j =
     (let fac = (dens_i * press_j + dens_j * press_i) / (dens_i + dens_j);
          acc_i = (case acc_i of None \<Rightarrow> None
                   | Some a \<Rightarrow> Some (vec_add_scale a (- speccoeff_ij * fac) e_ij));
          acc_j = (case acc_j of None \<Rightarrow> None
                   | Some a \<Rightarrow> Some (vec_add_scale a (speccoeff_ji * fac) e_ij))
      in (acc_i, acc_j))"

definition Adami_shear_forces ::
  "real \<Rightarrow> real \<Rightarrow> vec \<Rightarrow> vec \<Rightarrow> real \<Rightarrow> real \<Rightarrow> real \<Rightarrow> real \<Rightarrow> real \<Rightarrow> real \<Rightarrow> real \<Rightarrow> real
    \<Rightarrow> vec \<Rightarrow> vec option \<Rightarrow> vec option \<Rightarrow> (vec option \<times> vec option) outcome" where
  "Adami_shear_forces dens_i dens_j vel_i vel_j kernelfac visc_i visc_j bulk_visc_i bulk_visc_j
      abs_rij speccoeff_ij speccoeff_ji e_ij acc_i acc_j =
     (if visc_i > 0 \<and> visc_j > 0
      then
        (let viscosity = 2 * visc_i * visc_j / (visc_i + visc_j);
             vel_ij = vec_set vel_i;
             vel_ij = vec_sub vel_ij vel_j;
             fac = viscosity / abs_rij;
             acc_i = (case acc_i of None \<Rightarrow> None
                      | Some a \<Rightarrow> Some (vec_add_scale a (speccoeff_ij * fac) vel_ij));
             acc_j = (case acc_j of None \<Rightarrow> None
                      | Some a \<Rightarrow> Some (vec_add_scale a (- speccoeff_ji * fac) vel_ij))
         in Returns (acc_i, acc_j))
      else Returns (acc_i, acc_j))"

definition Adami_standard_background_pressure ::
  "real \<Rightarrow> real \<Rightarrow> real \<Rightarrow> real \<Rightarrow> real \<Rightarrow> real \<Rightarrow> vec \<Rightarrow> vec option \<Rightarrow> vec option
    \<Rightarrow> vec option \<times> vec option" where
  "Adami_standard_background_pressure dens_i dens_j bg_press_i bg_press_j speccoeff_ij
      speccoeff_ji e_ij mod_acc_i mod_acc_j =
     (let mod_acc_i = (case mod_acc_i of None \<Rightarrow> None
                       | Some a \<Rightarrow> Some (vec_add_scale a (- speccoeff_ij * bg_press_i) e_ij));
          mod_acc_j = (case mod_acc_j of None \<Rightarrow> None
                       | Some a \<Rightarrow> Some (vec_add_scale a (speccoeff_ji * bg_press_j) e_ij))
      in (mod_acc_i, mod_acc_j))"

definition Adami_generalized_background_pressure ::
  "real \<Rightarrow> real \<Rightarrow> real \<Rightarrow> real \<Rightarrow> real \<Rightarrow> real \<Rightarrow> real \<Rightarrow> real \<Rightarrow> vec \<Rightarrow> vec option \<Rightarrow> vec option
    \<Rightarrow> vec option \<times> vec option" where
  "Adami_generalized_background_pressure dens_i dens_j mass_i mass_j mod_bg_press_i
      mod_bg_press_j mod_dWdrij mod_dWdrji e_ij mod_acc_i mod_acc_j =
     (let mod_acc_i = (case mod_acc_i of None \<Rightarrow> None
                       | Some a \<Rightarrow> Some (vec_add_scale a
                           (- (mod_bg_press_i * mass_i * mod_dWdrij) / pow_2 dens_i) e_ij));
          mod_acc_j = (case mod_acc_j of None \<Rightarrow> None
                       | Some a \<Rightarrow> Some (vec_add_scale a
                           ((mod_bg_press_j * mass_j * mod_dWdrji) / pow_2 dens_j) e_ij))
      in (mod_acc_i, mod_acc_j))"

definition Adami_modified_velocity_contribution ::
  "real \<Rightarrow> real \<Rightarrow> vec \<Rightarrow> vec \<Rightarrow> vec option \<Rightarrow> vec option \<Rightarrow> real \<Rightarrow> real \<Rightarrow> vec
    \<Rightarrow> vec option \<Rightarrow> vec option \<Rightarrow> vec option \<times> vec option" where
  "Adami_modified_velocity_contribution dens_i dens_j vel_i vel_j mod_vel_i mod_vel_j
      speccoeff_ij speccoeff_ji e_ij acc_i acc_j =
     (let A_ij_e_ij = (0, 0, 0);
          A_ij_e_ij = (case mod_vel_i of None \<Rightarrow> A_ij_e_ij
                       | Some mv \<Rightarrow>
                           (let modvel_ii = vec_set mv;
                                modvel_ii = vec_sub modvel_ii vel_i
                            in vec_add_scale A_ij_e_ij (0.5 * dens_i * vec_dot modvel_ii e_ij) vel_i));
          A_ij_e_ij = (case mod_vel_j of None \<Rightarrow> A_ij_e_ij
                       | Some mv \<Rightarrow>
                           (let modvel_jj = vec_set mv;
                                modvel_jj = vec_sub modvel_jj vel_j
                            in vec_add_scale A_ij_e_ij (0.5 * dens_j * vec_dot modvel_jj e_ij) vel_j));
          acc_i = (case acc_i of None \<Rightarrow> None
                   | Some a \<Rightarrow> Some (vec_add_scale a speccoeff_ij A_ij_e_ij));
          acc_j = (case acc_j of None \<Rightarrow> None
                   | Some a \<Rightarrow> Some (vec_add_scale a (- speccoeff_ji) A_ij_e_ij))
      in (acc_i, acc_j))"

subsection \<open>The six operations of the contract, dispatched on the variant\<close>

definition specific_coefficient ::
  "formulation \<Rightarrow> real \<Rightarrow> real \<Rightarrow> real \<Rightarrow> real \<Rightarrow> real \<Rightarrow> real \<Rightarrow> real option \<Rightarrow> real option
    \<Rightarrow> real option \<times> real option" where
  "specific_coefficient f =
     (case f of Monaghan \<Rightarrow> Monaghan_specific_coefficient | Adami \<Rightarrow> Adami_specific_coefficient)"

definition pressure_gradient ::
  "formulation \<Rightarrow> real \<Rightarrow> real \<Rightarrow> real \<Rightarrow> real \<Rightarrow> real \<Rightarrow> real \<Rightarrow> vec \<Rightarrow> vec option \<Rightarrow> vec option
    \<Rightarrow> vec option \<times> vec option" where
  "pressure_gradient f =
     (case f of Monaghan \<Rightarrow> Monaghan_pressure_gradient | Adami \<Rightarrow> Adami_pressure_gradient)"

definition shear_forces ::
  "formulation \<Rightarrow> real \<Rightarrow> real \<Rightarrow> vec \<Rightarrow> vec \<Rightarrow> real \<Rightarrow> real \<Rightarrow> real \<Rightarrow> real \<Rightarrow> real \<Rightarrow> real \<Rightarrow> real
    \<Rightarrow> real \<Rightarrow> vec \<Rightarrow> vec option \<Rightarrow> vec option \<Rightarrow> (vec option \<times> vec option) outcome" where
  "shear_forces f =
     (case f of Monaghan \<Rightarrow> Monaghan_shear_forces | Adami \<Rightarrow> Adami_shear_forces)"

definition standard_background_pressure ::
  "formulation \<Rightarrow> real \<Rightarrow> real \<Rightarrow> real \<Rightarrow> real \<Rightarrow> real \<Rightarrow> real \<Rightarrow> vec \<Rightarrow> vec option \<Rightarrow> vec option
    \<Rightarrow> vec option \<times> vec option" where
  "standard_background_pressure f =
     (case f of Monaghan \<Rightarrow> Monaghan_standard_background_pressure
      | Adami \<Rightarrow> Adami_standard_background_pressure)"

definition generalized_background_pressure ::
  "formulation \<Rightarrow> real \<Rightarrow> real \<Rightarrow> real \<Rightarrow> real \<Rightarrow> real \<Rightarrow> real \<Rightarrow> real \<Rightarrow> real \<Rightarrow> vec
    \<Rightarrow> vec option \<Rightarrow> vec option \<Rightarrow> vec option \<times> vec option" where
  "generalized_background_pressure f =
     (case f of Monaghan \<Rightarrow> Monaghan_generalized_background_pressure
      | Adami \<Rightarrow> Adami_generalized_background_pressure)"

definition modified_velocity_contribution ::
  "formulation \<Rightarrow> real \<Rightarrow> real \<Rightarrow> vec \<Rightarrow> vec \<Rightarrow> vec option \<Rightarrow> vec option \<Rightarrow> real \<Rightarrow> real \<Rightarrow> vec
    \<Rightarrow> vec option \<Rightarrow> vec option \<Rightarrow> vec option \<times> vec option" where
  "modified_velocity_contribution f =
     (case f of Monaghan \<Rightarrow> Monaghan_modified_velocity_contribution
      | Adami \<Rightarrow> Adami_modified_velocity_contribution)"

subsection \<open>Vocabulary of the statements\<close>

text \<open>The vector by which a buffer has changed, a scaled vector and the sum of two vectors,
  componentwise. They occur in the statements only, never in the operations.\<close>

fun added :: "vec \<Rightarrow> vec \<Rightarrow> vec" where
  "added (n0, n1, n2) (o0, o1, o2) = (n0 - o0, n1 - o1, n2 - o2)"

fun scaled :: "real \<Rightarrow> vec \<Rightarrow> vec" where
  "scaled k (a0, a1, a2) = (k * a0, k * a1, k * a2)"

fun plus_vec :: "vec \<Rightarrow> vec \<Rightarrow> vec" where
  "plus_vec (a0, a1, a2) (b0, b1, b2) = (a0 + b0, a1 + b1, a2 + b2)"

text \<open>An operation only adds: whatever the two buffers hold, each non-null one ends up
  holding its content plus a vector that does not depend on that content, and a null one
  stays null.\<close>

definition only_adds :: "(vec option \<Rightarrow> vec option \<Rightarrow> vec option \<times> vec option) \<Rightarrow> bool" where
  "only_adds op \<longleftrightarrow>
     (\<exists>d_i d_j. \<forall>acc_i acc_j.
        op acc_i acc_j = (map_option (\<lambda>a. plus_vec a d_i) acc_i,
                          map_option (\<lambda>a. plus_vec a d_j) acc_j))"

text \<open>Each side is guarded on its own: a null pointer on one side stays null, and the
  other side ends up as it would with a buffer in place of the null pointer.\<close>

definition guards_each_side :: "(vec option \<Rightarrow> vec option \<Rightarrow> vec option \<times> vec option) \<Rightarrow> bool" where
  "guards_each_side op \<longleftrightarrow>
     (\<forall>a acc_j. op None acc_j = (None, snd (op (Some a) acc_j)))
   \<and> (\<forall>b acc_i. op acc_i None = (fst (op acc_i (Some b)), None))"

section \<open>Properties\<close>

subsection \<open>Auxiliary facts\<close>

lemma vec_add_scale_zero [simp]: "vec_add_scale a 0 v = a"
  by (cases a; cases v; simp)

lemma vec_add_scale_plus: "vec_add_scale a k v = plus_vec a (scaled k v)"
  by (cases a; cases v; simp)

lemma plus_vec_assoc: "plus_vec (plus_vec a b) c = plus_vec a (plus_vec b c)"
  by (cases a; cases b; cases c; simp)

lemma plus_vec_zero: "plus_vec a (0, 0, 0) = a"
  by (cases a; simp)

lemma added_plus_vec [simp]: "added (plus_vec a d) a = d"
  by (cases a; cases d; simp)

lemma scaled_scaled [simp]: "scaled k (scaled l v) = scaled (k * l) v"
  by (cases v; simp)

lemma vec_sub_self: "vec_sub (vec_set v) v = (0, 0, 0)"
  by (cases v; simp)

lemma vec_dot_zero: "vec_dot (0, 0, 0) e = 0"
  by (cases e; simp)

lemma guarded_add:
  "(case acc of None \<Rightarrow> None | Some a \<Rightarrow> Some (g a)) = map_option g acc"
  by (cases acc; simp)

lemma guarded_add_twice:
  "map_option (\<lambda>a. plus_vec a d2) (map_option (\<lambda>a. plus_vec a d1) acc)
   = map_option (\<lambda>a. plus_vec a (plus_vec d1 d2)) acc"
  by (cases acc; simp add: plus_vec_assoc)

lemma only_addsI:
  "(\<And>acc_i acc_j. op acc_i acc_j = (map_option (\<lambda>a. plus_vec a d_i) acc_i,
                                      map_option (\<lambda>a. plus_vec a d_j) acc_j))
   \<Longrightarrow> only_adds op"
  unfolding only_adds_def by blast

lemma only_adds_unchanged: "only_adds (\<lambda>acc_i acc_j. (acc_i, acc_j))"
proof (rule only_addsI [where d_i = "(0, 0, 0)" and d_j = "(0, 0, 0)"])
  fix acc_i acc_j :: "vec option"
  show "(acc_i, acc_j) = (map_option (\<lambda>a. plus_vec a (0, 0, 0)) acc_i,
                          map_option (\<lambda>a. plus_vec a (0, 0, 0)) acc_j)"
    by (cases acc_i; cases acc_j; simp add: plus_vec_zero)
qed

lemma only_adds_guards: "only_adds op \<Longrightarrow> guards_each_side op"
  unfolding only_adds_def guards_each_side_def by auto

lemmas adds_simps = Let_def guarded_add vec_add_scale_plus guarded_add_twice

lemma Adami_shear_nonpos:
  "visc_i \<le> 0 \<or> visc_j \<le> 0 \<Longrightarrow>
   Adami_shear_forces dens_i dens_j vel_i vel_j kernelfac visc_i visc_j bulk_visc_i bulk_visc_j
      abs_rij speccoeff_ij speccoeff_ji e_ij acc_i acc_j = Returns (acc_i, acc_j)"
  by (auto simp add: Adami_shear_forces_def)

lemma Monaghan_shear_zero:
  "Monaghan_shear_forces dens_i dens_j vel_i vel_j kernelfac 0 0 bulk_visc_i bulk_visc_j
      abs_rij speccoeff_ij speccoeff_ji e_ij acc_i acc_j =
   (if bulk_visc_i > 0 \<and> bulk_visc_j > 0
    then Throws (FOUR_C_THROW ''diffusion coefficient is negative!'') (acc_i, acc_j)
    else Returns (acc_i, acc_j))"
  by (cases acc_i; cases acc_j; simp add: Monaghan_shear_forces_def Let_def)

lemma pressure_gradient_only_adds:
  "only_adds (pressure_gradient f dens_i dens_j press_i press_j speccoeff_ij speccoeff_ji e_ij)"
proof (cases f)
  case Monaghan
  show ?thesis
    unfolding Monaghan pressure_gradient_def formulation.case Monaghan_pressure_gradient_def adds_simps
    by (rule only_addsI) (rule refl)
next
  case Adami
  show ?thesis
    unfolding Adami pressure_gradient_def formulation.case Adami_pressure_gradient_def adds_simps
    by (rule only_addsI) (rule refl)
qed

lemma standard_background_pressure_only_adds:
  "only_adds (standard_background_pressure f dens_i dens_j bg_press_i bg_press_j speccoeff_ij
      speccoeff_ji e_ij)"
proof (cases f)
  case Monaghan
  show ?thesis
    unfolding Monaghan standard_background_pressure_def formulation.case
      Monaghan_standard_background_pressure_def adds_simps
    by (rule only_addsI) (rule refl)
next
  case Adami
  show ?thesis
    unfolding Adami standard_background_pressure_def formulation.case
      Adami_standard_background_pressure_def adds_simps
    by (rule only_addsI) (rule refl)
qed

lemma generalized_background_pressure_only_adds:
  "only_adds (generalized_background_pressure f dens_i dens_j mass_i mass_j mod_bg_press_i
      mod_bg_press_j mod_dWdrij mod_dWdrji e_ij)"
proof (cases f)
  case Monaghan
  show ?thesis
    unfolding Monaghan generalized_background_pressure_def formulation.case
      Monaghan_generalized_background_pressure_def adds_simps
    by (rule only_addsI) (rule refl)
next
  case Adami
  show ?thesis
    unfolding Adami generalized_background_pressure_def formulation.case
      Adami_generalized_background_pressure_def adds_simps
    by (rule only_addsI) (rule refl)
qed

lemma modified_velocity_contribution_only_adds:
  "only_adds (modified_velocity_contribution f dens_i dens_j vel_i vel_j mod_vel_i mod_vel_j
      speccoeff_ij speccoeff_ji e_ij)"
proof (cases f)
  case Monaghan
  show ?thesis
    unfolding Monaghan modified_velocity_contribution_def formulation.case
      Monaghan_modified_velocity_contribution_def Let_def guarded_add vec_add_scale_plus
    by (rule only_addsI) (rule refl)
next
  case Adami
  show ?thesis
    unfolding Adami modified_velocity_contribution_def formulation.case
      Adami_modified_velocity_contribution_def Let_def guarded_add vec_add_scale_plus
    by (rule only_addsI) (rule refl)
qed

lemma Adami_shear_forces_only_adds:
  "only_adds (\<lambda>acc_i acc_j. mem_of (Adami_shear_forces dens_i dens_j vel_i vel_j kernelfac
      visc_i visc_j bulk_visc_i bulk_visc_j abs_rij speccoeff_ij speccoeff_ji e_ij acc_i acc_j))"
proof (cases "visc_i > 0 \<and> visc_j > 0")
  case True
  show ?thesis
    unfolding Adami_shear_forces_def if_P [OF True] adds_simps mem_of.simps
    by (rule only_addsI) (rule refl)
next
  case False
  show ?thesis
    unfolding Adami_shear_forces_def if_not_P [OF False] mem_of.simps
    by (rule only_adds_unchanged)
qed

lemma Monaghan_shear_forces_only_adds:
  "only_adds (\<lambda>acc_i acc_j. mem_of (Monaghan_shear_forces dens_i dens_j vel_i vel_j kernelfac
      visc_i visc_j bulk_visc_i bulk_visc_j abs_rij speccoeff_ij speccoeff_ji e_ij acc_i acc_j))"
proof (cases "5 * (if visc_i > 0 \<and> visc_j > 0 then 2 * visc_i * visc_j / (3 * (visc_i + visc_j)) else 0)
      - (if bulk_visc_i > 0 \<and> bulk_visc_j > 0
             then 2 * bulk_visc_i * bulk_visc_j / (bulk_visc_i + bulk_visc_j) else 0) < 0")
  case True
  show ?thesis
    unfolding Monaghan_shear_forces_def Let_def if_P [OF True] mem_of.simps
    by (rule only_adds_unchanged)
next
  case False
  show ?thesis
    unfolding Monaghan_shear_forces_def Let_def if_not_P [OF False] adds_simps mem_of.simps
    by (rule only_addsI) (rule refl)
qed

lemma shear_forces_only_adds:
  "only_adds (\<lambda>acc_i acc_j. mem_of (shear_forces f dens_i dens_j vel_i vel_j kernelfac
      visc_i visc_j bulk_visc_i bulk_visc_j abs_rij speccoeff_ij speccoeff_ji e_ij acc_i acc_j))"
  by (cases f) (simp_all add: shear_forces_def Monaghan_shear_forces_only_adds
      Adami_shear_forces_only_adds)

lemma shear_forces_throws_iff:
  "throws (shear_forces f dens_i dens_j vel_i vel_j kernelfac
      visc_i visc_j bulk_visc_i bulk_visc_j abs_rij speccoeff_ij speccoeff_ji e_ij acc_i acc_j)
   \<longleftrightarrow> throws (shear_forces f dens_i dens_j vel_i vel_j kernelfac
      visc_i visc_j bulk_visc_i bulk_visc_j abs_rij speccoeff_ij speccoeff_ji e_ij None None)"
  by (cases f) (simp_all add: shear_forces_def Monaghan_shear_forces_def Adami_shear_forces_def Let_def)

lemma pressure_gradient_some:
  "pressure_gradient f dens_i dens_j press_i press_j speccoeff_ij speccoeff_ji e_ij (Some a_i) (Some a_j)
   = (Some (plus_vec a_i (scaled (- speccoeff_ij *
              (case f of Monaghan \<Rightarrow> press_i / (dens_i * dens_i) + press_j / (dens_j * dens_j)
               | Adami \<Rightarrow> (dens_i * press_j + dens_j * press_i) / (dens_i + dens_j))) e_ij)),
      Some (plus_vec a_j (scaled (speccoeff_ji *
              (case f of Monaghan \<Rightarrow> press_i / (dens_i * dens_i) + press_j / (dens_j * dens_j)
               | Adami \<Rightarrow> (dens_i * press_j + dens_j * press_i) / (dens_i + dens_j))) e_ij)))"
  by (cases f; simp add: pressure_gradient_def Monaghan_pressure_gradient_def
      Adami_pressure_gradient_def Let_def pow_2_def vec_add_scale_plus)

subsection \<open>Claims\<close>

text \<open>
  C1, as the code has it. \<open>shear_forces\<close> leaves \<open>acc_i\<close> and \<open>acc_j\<close> as they were
  when, for Adami, one of the two viscosities is not positive and, for Monaghan, both are
  zero. Adami never throws there. Monaghan throws there exactly when both bulk viscosities
  are positive (the diffusion coefficient is then the negated bulk viscosity); with a
  non-positive bulk viscosity on either side it returns normally.
\<close>

theorem shear_forces_zero_viscosity:
  assumes "f = Monaghan \<longrightarrow> visc_i = 0 \<and> visc_j = 0"
    and "f = Adami \<longrightarrow> visc_i \<le> 0 \<or> visc_j \<le> 0"
  shows "mem_of (shear_forces f dens_i dens_j vel_i vel_j kernelfac visc_i visc_j bulk_visc_i
            bulk_visc_j abs_rij speccoeff_ij speccoeff_ji e_ij acc_i acc_j) = (acc_i, acc_j)
       \<and> (throws (shear_forces f dens_i dens_j vel_i vel_j kernelfac visc_i visc_j bulk_visc_i
            bulk_visc_j abs_rij speccoeff_ij speccoeff_ji e_ij acc_i acc_j)
          \<longleftrightarrow> f = Monaghan \<and> bulk_visc_i > 0 \<and> bulk_visc_j > 0)"
proof (cases f)
  case Monaghan
  with assms show ?thesis
    by (simp add: shear_forces_def Monaghan_shear_zero)
next
  case Adami
  with assms have "visc_i \<le> 0 \<or> visc_j \<le> 0" by simp
  from Adami_shear_nonpos [OF this] Adami show ?thesis
    by (simp add: shear_forces_def)
qed

theorem shear_forces_zero_viscosity_witness:
  "mem_of (shear_forces Monaghan 1 1 (1, 2, 3) (0, 0, 0) 1 0 0 0 7 1 1 1 (1, 0, 0)
      (Some (4, 5, 6)) (Some (7, 8, 9))) = (Some (4, 5, 6), Some (7, 8, 9))
   \<and> \<not> throws (shear_forces Monaghan 1 1 (1, 2, 3) (0, 0, 0) 1 0 0 0 7 1 1 1 (1, 0, 0)
      (Some (4, 5, 6)) (Some (7, 8, 9)))
   \<and> mem_of (shear_forces Adami 1 1 (1, 2, 3) (0, 0, 0) 1 (-1) 2 3 7 1 1 1 (1, 0, 0)
      (Some (4, 5, 6)) (Some (7, 8, 9))) = (Some (4, 5, 6), Some (7, 8, 9))
   \<and> \<not> throws (shear_forces Adami 1 1 (1, 2, 3) (0, 0, 0) 1 (-1) 2 3 7 1 1 1 (1, 0, 0)
      (Some (4, 5, 6)) (Some (7, 8, 9)))"
  using shear_forces_zero_viscosity [of Monaghan 0 0 1 1 "(1, 2, 3)" "(0, 0, 0)" 1 0 7 1 1 1
      "(1, 0, 0)" "Some (4, 5, 6)" "Some (7, 8, 9)"]
    shear_forces_zero_viscosity [of Adami "-1" 2 1 1 "(1, 2, 3)" "(0, 0, 0)" 1 3 7 1 1 1
      "(1, 0, 0)" "Some (4, 5, 6)" "Some (7, 8, 9)"]
  by simp

text \<open>
  C1, as the spec states it, fails for Monaghan: with both viscosities zero and both bulk
  viscosities one, the diffusion coefficient is \<open>-1\<close> and the call throws.
\<close>

theorem shear_forces_zero_viscosity_throws:
  "shear_forces Monaghan 1 1 (0, 0, 0) (0, 0, 0) 1 0 0 1 1 1 1 1 (1, 0, 0)
      (Some (0, 0, 0)) (Some (0, 0, 0))
   = Throws (FOUR_C_THROW ''diffusion coefficient is negative!'') (Some (0, 0, 0), Some (0, 0, 0))"
  by (simp add: shear_forces_def Monaghan_shear_forces_def Let_def)

text \<open>
  C2. Monaghan \<open>shear_forces\<close>, with the four viscosities positive and
  \<open>5 * scaled_viscosity < bulk_viscosity\<close>, throws "diffusion coefficient is negative!"
  before it has added anything: \<open>acc_i\<close> and \<open>acc_j\<close> hold what they held at the call.
\<close>

theorem Monaghan_shear_forces_rejects:
  assumes "visc_i > 0" and "visc_j > 0" and "bulk_visc_i > 0" and "bulk_visc_j > 0"
    and "5 * (2 * visc_i * visc_j / (3 * (visc_i + visc_j)))
          < 2 * bulk_visc_i * bulk_visc_j / (bulk_visc_i + bulk_visc_j)"
  shows "Monaghan_shear_forces dens_i dens_j vel_i vel_j kernelfac visc_i visc_j bulk_visc_i
           bulk_visc_j abs_rij speccoeff_ij speccoeff_ji e_ij acc_i acc_j
         = Throws (FOUR_C_THROW ''diffusion coefficient is negative!'') (acc_i, acc_j)"
  using assms by (simp add: Monaghan_shear_forces_def Let_def)

theorem Monaghan_shear_forces_rejects_witness:
  "(1::real) > 0 \<and> (10::real) > 0
   \<and> 5 * (2 * 1 * 1 / (3 * (1 + 1))) < (2 * 10 * 10 / (10 + 10) :: real)
   \<and> Monaghan_shear_forces 1 1 (1, 0, 0) (0, 0, 0) 1 1 1 10 10 1 1 1 (1, 0, 0)
        (Some (4, 5, 6)) (Some (7, 8, 9))
      = Throws (FOUR_C_THROW ''diffusion coefficient is negative!'') (Some (4, 5, 6), Some (7, 8, 9))"
  using Monaghan_shear_forces_rejects [of 1 1 10 10 1 1 "(1, 0, 0)" "(0, 0, 0)" 1 1 1 1
      "(1, 0, 0)" "Some (4, 5, 6)" "Some (7, 8, 9)"]
  by simp

text \<open>
  C3. For both variants, \<open>pressure_gradient\<close> with both accumulators non-null adds
  \<open>- speccoeff_ij * fac * e_ij\<close> to \<open>acc_i\<close> and \<open>speccoeff_ji * fac * e_ij\<close> to \<open>acc_j\<close>,
  with the same scalar \<open>fac\<close> on both sides: for Monaghan
  \<open>press_i/(dens_i*dens_i) + press_j/(dens_j*dens_j)\<close>, for Adami
  \<open>(dens_i*press_j + dens_j*press_i) / (dens_i + dens_j)\<close>.
  So with \<open>speccoeff_ij = speccoeff_ji\<close> what is added to \<open>acc_i\<close> is the negation of what is
  added to \<open>acc_j\<close>, and in general the two are negated up to the ratio of the two
  coefficients: \<open>speccoeff_ji\<close> times the first is \<open>- speccoeff_ij\<close> times the second.
\<close>

theorem pressure_gradient_action_reaction:
  "\<exists>a_i' a_j'.
     pressure_gradient f dens_i dens_j press_i press_j speccoeff_ij speccoeff_ji e_ij
        (Some a_i) (Some a_j) = (Some a_i', Some a_j')
     \<and> added a_i' a_i
         = scaled (- speccoeff_ij *
             (case f of
                Monaghan \<Rightarrow> press_i / (dens_i * dens_i) + press_j / (dens_j * dens_j)
              | Adami \<Rightarrow> (dens_i * press_j + dens_j * press_i) / (dens_i + dens_j))) e_ij
     \<and> added a_j' a_j
         = scaled (speccoeff_ji *
             (case f of
                Monaghan \<Rightarrow> press_i / (dens_i * dens_i) + press_j / (dens_j * dens_j)
              | Adami \<Rightarrow> (dens_i * press_j + dens_j * press_i) / (dens_i + dens_j))) e_ij
     \<and> (speccoeff_ij = speccoeff_ji \<longrightarrow> added a_i' a_i = scaled (- 1) (added a_j' a_j))
     \<and> scaled speccoeff_ji (added a_i' a_i) = scaled (- speccoeff_ij) (added a_j' a_j)"
  unfolding pressure_gradient_some
  by (intro exI conjI, rule refl) (simp_all add: mult.commute mult.left_commute)

theorem pressure_gradient_action_reaction_witness:
  "\<exists>a_i' a_j'.
     pressure_gradient Monaghan 1 2 3 8 5 5 (1, 0, 0) (Some (0, 0, 0)) (Some (0, 0, 0))
       = (Some a_i', Some a_j')
     \<and> added a_i' (0, 0, 0) = (- 25, 0, 0)
     \<and> added a_j' (0, 0, 0) = (25, 0, 0)
     \<and> added a_i' (0, 0, 0) = scaled (- 1) (added a_j' (0, 0, 0))"
proof -
  from pressure_gradient_action_reaction
    [of Monaghan 1 2 3 8 5 5 "(1, 0, 0)" "(0, 0, 0)" "(0, 0, 0)"]
  obtain a_i' a_j' where
    res: "pressure_gradient Monaghan 1 2 3 8 5 5 (1, 0, 0) (Some (0, 0, 0)) (Some (0, 0, 0))
            = (Some a_i', Some a_j')"
    and d_i: "added a_i' (0, 0, 0) = scaled (- 5 * (3 / (1 * 1) + 8 / (2 * 2))) (1, 0, 0)"
    and d_j: "added a_j' (0, 0, 0) = scaled (5 * (3 / (1 * 1) + 8 / (2 * 2))) (1, 0, 0)"
    and neg: "(5::real) = 5 \<longrightarrow> added a_i' (0, 0, 0) = scaled (- 1) (added a_j' (0, 0, 0))"
    by auto
  from d_i have "added a_i' (0, 0, 0) = (- 25, 0, 0)" by simp
  moreover from d_j have "added a_j' (0, 0, 0) = (25, 0, 0)" by simp
  moreover from neg have "added a_i' (0, 0, 0) = scaled (- 1) (added a_j' (0, 0, 0))" by simp
  ultimately show ?thesis using res by blast
qed

text \<open>
  C4. In every operation of both variants that has vector outputs (\<open>specific_coefficient\<close>
  has none), a null pointer for one output stays null, nothing being written through it,
  and the other output ends up exactly as it would if the null pointer were a buffer:
  each side is guarded on its own. For \<open>shear_forces\<close> this is said of the buffers after
  the call, and whether the call throws does not depend on the output pointers at all.
\<close>

theorem null_output_is_skipped:
  "guards_each_side (pressure_gradient f dens_i dens_j press_i press_j speccoeff_ij speccoeff_ji e_ij)
   \<and> guards_each_side (\<lambda>acc_i acc_j. mem_of (shear_forces f dens_i dens_j vel_i vel_j kernelfac
        visc_i visc_j bulk_visc_i bulk_visc_j abs_rij speccoeff_ij speccoeff_ji e_ij acc_i acc_j))
   \<and> (\<forall>acc_i acc_j acc_i' acc_j'.
        throws (shear_forces f dens_i dens_j vel_i vel_j kernelfac visc_i visc_j bulk_visc_i
          bulk_visc_j abs_rij speccoeff_ij speccoeff_ji e_ij acc_i acc_j)
        = throws (shear_forces f dens_i dens_j vel_i vel_j kernelfac visc_i visc_j bulk_visc_i
          bulk_visc_j abs_rij speccoeff_ij speccoeff_ji e_ij acc_i' acc_j'))
   \<and> guards_each_side (standard_background_pressure f dens_i dens_j bg_press_i bg_press_j
        speccoeff_ij speccoeff_ji e_ij)
   \<and> guards_each_side (generalized_background_pressure f dens_i dens_j mass_i mass_j
        mod_bg_press_i mod_bg_press_j mod_dWdrij mod_dWdrji e_ij)
   \<and> guards_each_side (modified_velocity_contribution f dens_i dens_j vel_i vel_j mod_vel_i
        mod_vel_j speccoeff_ij speccoeff_ji e_ij)"
proof (intro conjI allI)
  show "guards_each_side (pressure_gradient f dens_i dens_j press_i press_j speccoeff_ij
      speccoeff_ji e_ij)"
    by (rule only_adds_guards [OF pressure_gradient_only_adds])
  show "guards_each_side (\<lambda>acc_i acc_j. mem_of (shear_forces f dens_i dens_j vel_i vel_j kernelfac
        visc_i visc_j bulk_visc_i bulk_visc_j abs_rij speccoeff_ij speccoeff_ji e_ij acc_i acc_j))"
    by (rule only_adds_guards [OF shear_forces_only_adds])
  show "guards_each_side (standard_background_pressure f dens_i dens_j bg_press_i bg_press_j
        speccoeff_ij speccoeff_ji e_ij)"
    by (rule only_adds_guards [OF standard_background_pressure_only_adds])
  show "guards_each_side (generalized_background_pressure f dens_i dens_j mass_i mass_j
        mod_bg_press_i mod_bg_press_j mod_dWdrij mod_dWdrji e_ij)"
    by (rule only_adds_guards [OF generalized_background_pressure_only_adds])
  show "guards_each_side (modified_velocity_contribution f dens_i dens_j vel_i vel_j mod_vel_i
        mod_vel_j speccoeff_ij speccoeff_ji e_ij)"
    by (rule only_adds_guards [OF modified_velocity_contribution_only_adds])
  fix acc_i acc_j acc_i' acc_j' :: "vec option"
  show "throws (shear_forces f dens_i dens_j vel_i vel_j kernelfac visc_i visc_j bulk_visc_i
          bulk_visc_j abs_rij speccoeff_ij speccoeff_ji e_ij acc_i acc_j)
        = throws (shear_forces f dens_i dens_j vel_i vel_j kernelfac visc_i visc_j bulk_visc_i
          bulk_visc_j abs_rij speccoeff_ij speccoeff_ji e_ij acc_i' acc_j')"
    using shear_forces_throws_iff [of f dens_i dens_j vel_i vel_j kernelfac visc_i visc_j
        bulk_visc_i bulk_visc_j abs_rij speccoeff_ij speccoeff_ji e_ij acc_i acc_j]
      shear_forces_throws_iff [of f dens_i dens_j vel_i vel_j kernelfac visc_i visc_j
        bulk_visc_i bulk_visc_j abs_rij speccoeff_ij speccoeff_ji e_ij acc_i' acc_j']
    by simp
qed

text \<open>
  C5, as the code has it. For both variants, a call of \<open>modified_velocity_contribution\<close>
  with \<open>mod_vel_i\<close> non-null and equal to \<open>vel_i\<close> does what the call with \<open>mod_vel_i\<close>
  null does: side \<open>i\<close> contributes nothing to the shared vector \<open>A_ij_e_ij\<close>. What is added
  to \<open>acc_i\<close> is the zero vector when, in addition, \<open>mod_vel_j\<close> is null or equal to \<open>vel_j\<close>.
\<close>

theorem modified_velocity_contribution_unmodified_i:
  "modified_velocity_contribution f dens_i dens_j vel_i vel_j (Some vel_i) mod_vel_j
      speccoeff_ij speccoeff_ji e_ij (Some a) acc_j
   = modified_velocity_contribution f dens_i dens_j vel_i vel_j None mod_vel_j
      speccoeff_ij speccoeff_ji e_ij (Some a) acc_j
   \<and> (mod_vel_j = None \<or> mod_vel_j = Some vel_j \<longrightarrow>
        fst (modified_velocity_contribution f dens_i dens_j vel_i vel_j (Some vel_i) mod_vel_j
               speccoeff_ij speccoeff_ji e_ij (Some a) acc_j) = Some a)"
  by (cases f; cases a;
      auto simp add: modified_velocity_contribution_def Monaghan_modified_velocity_contribution_def
        Adami_modified_velocity_contribution_def Let_def vec_sub_self vec_dot_zero)

theorem modified_velocity_contribution_unmodified_i_witness:
  "fst (modified_velocity_contribution Monaghan 2 3 (1, 2, 3) (4, 5, 6) (Some (1, 2, 3))
          (Some (4, 5, 6)) 7 8 (1, 0, 0) (Some (9, 9, 9)) None) = Some (9, 9, 9)"
  using modified_velocity_contribution_unmodified_i [of Monaghan 2 3 "(1, 2, 3)" "(4, 5, 6)"
      "Some (4, 5, 6)" 7 8 "(1, 0, 0)" "(9, 9, 9)" None]
  by blast

text \<open>
  C5, as the spec states it, fails: with \<open>mod_vel_i = vel_i\<close> and
  \<open>mod_vel_j = vel_j + (1, 0, 0)\<close>, side \<open>j\<close> fills \<open>A_ij_e_ij\<close> with \<open>(1, 0, 0)\<close>, and
  \<open>acc_i\<close>, which held the zero vector, ends up holding \<open>(1, 0, 0)\<close>.
\<close>

theorem modified_velocity_contribution_unmodified_i_nonzero:
  "modified_velocity_contribution Monaghan 1 1 (1, 0, 0) (1, 0, 0) (Some (1, 0, 0))
      (Some (2, 0, 0)) 1 1 (1, 0, 0) (Some (0, 0, 0)) None = (Some (1, 0, 0), None)"
  by (simp add: modified_velocity_contribution_def Monaghan_modified_velocity_contribution_def
      Let_def)

text \<open>
  C6. Each of \<open>pressure_gradient\<close>, \<open>shear_forces\<close>, \<open>standard_background_pressure\<close>,
  \<open>generalized_background_pressure\<close> and \<open>modified_velocity_contribution\<close>, in both
  variants, only adds into its accumulators: there are two vectors, fixed by the physical
  inputs, such that for every initial content \<open>a0\<close> of a non-null accumulator its final
  content is \<open>a0\<close> plus the vector of its side.
\<close>

theorem operations_only_add:
  "only_adds (pressure_gradient f dens_i dens_j press_i press_j speccoeff_ij speccoeff_ji e_ij)
   \<and> only_adds (\<lambda>acc_i acc_j. mem_of (shear_forces f dens_i dens_j vel_i vel_j kernelfac
        visc_i visc_j bulk_visc_i bulk_visc_j abs_rij speccoeff_ij speccoeff_ji e_ij acc_i acc_j))
   \<and> only_adds (standard_background_pressure f dens_i dens_j bg_press_i bg_press_j
        speccoeff_ij speccoeff_ji e_ij)
   \<and> only_adds (generalized_background_pressure f dens_i dens_j mass_i mass_j
        mod_bg_press_i mod_bg_press_j mod_dWdrij mod_dWdrji e_ij)
   \<and> only_adds (modified_velocity_contribution f dens_i dens_j vel_i vel_j mod_vel_i
        mod_vel_j speccoeff_ij speccoeff_ji e_ij)"
  by (intro conjI pressure_gradient_only_adds shear_forces_only_adds
      standard_background_pressure_only_adds generalized_background_pressure_only_adds
      modified_velocity_contribution_only_adds)

text \<open>
  C7. With positive densities, the scalar by which Adami's \<open>pressure_gradient\<close> scales
  \<open>e_ij\<close> is the inverse-density-weighted average of the two pressures,
  \<open>(press_i/dens_i + press_j/dens_j) / (1/dens_i + 1/dens_j)\<close>, which equals
  \<open>(dens_i*press_j + dens_j*press_i) / (dens_i + dens_j)\<close>; Monaghan's is the sum of the
  per-side terms \<open>press_i/(dens_i*dens_i) + press_j/(dens_j*dens_j)\<close>.
\<close>

theorem pressure_gradient_magnitude:
  assumes "0 < dens_i" and "0 < dens_j"
  shows "Adami_pressure_gradient dens_i dens_j press_i press_j speccoeff_ij speccoeff_ji e_ij
           (Some a_i) (Some a_j)
         = (Some (plus_vec a_i (scaled (- speccoeff_ij *
              ((press_i / dens_i + press_j / dens_j) / (1 / dens_i + 1 / dens_j))) e_ij)),
            Some (plus_vec a_j (scaled (speccoeff_ji *
              ((press_i / dens_i + press_j / dens_j) / (1 / dens_i + 1 / dens_j))) e_ij)))
       \<and> (press_i / dens_i + press_j / dens_j) / (1 / dens_i + 1 / dens_j)
         = (dens_i * press_j + dens_j * press_i) / (dens_i + dens_j)
       \<and> Monaghan_pressure_gradient dens_i dens_j press_i press_j speccoeff_ij speccoeff_ji e_ij
           (Some a_i) (Some a_j)
         = (Some (plus_vec a_i (scaled (- speccoeff_ij *
              (press_i / dens_i\<^sup>2 + press_j / dens_j\<^sup>2)) e_ij)),
            Some (plus_vec a_j (scaled (speccoeff_ji *
              (press_i / dens_i\<^sup>2 + press_j / dens_j\<^sup>2)) e_ij)))"
proof -
  have nz: "dens_i \<noteq> 0" "dens_j \<noteq> 0" "dens_i + dens_j \<noteq> 0"
    using assms by auto
  have "press_i / dens_i + press_j / dens_j
        = (dens_i * press_j + dens_j * press_i) / (dens_i * dens_j)"
    using nz by (simp add: field_simps)
  moreover have "1 / dens_i + 1 / dens_j = (dens_i + dens_j) / (dens_i * dens_j)"
    using nz by (simp add: field_simps)
  ultimately have avg: "(press_i / dens_i + press_j / dens_j) / (1 / dens_i + 1 / dens_j)
         = (dens_i * press_j + dens_j * press_i) / (dens_i + dens_j)"
    using nz by simp
  show ?thesis
    unfolding avg
    by (simp add: Adami_pressure_gradient_def Monaghan_pressure_gradient_def Let_def pow_2_def
        vec_add_scale_plus power2_eq_square)
qed

theorem pressure_gradient_magnitude_witness:
  "(0::real) < 1 \<and> (0::real) < 3
   \<and> Adami_pressure_gradient 1 3 2 6 1 1 (1, 0, 0) (Some (0, 0, 0)) (Some (0, 0, 0))
     = (Some (- 3, 0, 0), Some (3, 0, 0))
   \<and> Monaghan_pressure_gradient 1 3 2 6 1 1 (1, 0, 0) (Some (0, 0, 0)) (Some (0, 0, 0))
     = (Some (- 8 / 3, 0, 0), Some (8 / 3, 0, 0))"
  using pressure_gradient_magnitude [of 1 3 2 6 1 1 "(1, 0, 0)" "(0, 0, 0)" "(0, 0, 0)"]
  by simp

text \<open>
  C8. The Adami variant's \<open>specific_coefficient\<close>, called with
  \<open>dens_i = dens_j = 2\<close>, \<open>mass_i = mass_j = 1\<close>, \<open>dWdrij = dWdrji = 1\<close> and both output
  pointers non-null (whatever they held before), writes \<open>speccoeff_ij = speccoeff_ji = 0.5\<close>.
\<close>

theorem Adami_specific_coefficient_scenario:
  "Adami_specific_coefficient 2 2 1 1 1 1 (Some x) (Some y) = (Some 0.5, Some 0.5)"
  by (simp add: Adami_specific_coefficient_def pow_2_def Let_def)

text \<open>
  C9. Monaghan \<open>shear_forces\<close> never throws when \<open>bulk_visc_i \<le> 0\<close> or
  \<open>bulk_visc_j \<le> 0\<close>, whatever the two viscosities are: the bulk viscosity is then zero
  and five times the scaled viscosity is not negative.
\<close>

theorem Monaghan_shear_forces_no_throw:
  assumes "bulk_visc_i \<le> 0 \<or> bulk_visc_j \<le> 0"
  shows "\<not> throws (Monaghan_shear_forces dens_i dens_j vel_i vel_j kernelfac visc_i visc_j
           bulk_visc_i bulk_visc_j abs_rij speccoeff_ij speccoeff_ji e_ij acc_i acc_j)"
proof -
  have bulk: "(bulk_visc_i > 0 \<and> bulk_visc_j > 0) = False"
    using assms by auto
  show ?thesis
  proof (cases "visc_i > 0 \<and> visc_j > 0")
    case True
    then have "0 \<le> 2 * visc_i * visc_j / (3 * (visc_i + visc_j))"
      by simp
    then have "\<not> 5 * (2 * visc_i * visc_j / (3 * (visc_i + visc_j))) < 0"
      by simp
    with True show ?thesis
      unfolding Monaghan_shear_forces_def Let_def bulk by simp
  next
    case False
    then show ?thesis
      unfolding Monaghan_shear_forces_def Let_def bulk by auto
  qed
qed

theorem Monaghan_shear_forces_no_throw_witness:
  "\<not> throws (Monaghan_shear_forces 1 1 (1, 0, 0) (0, 0, 0) 1 2 3 0 5 1 1 1 (1, 0, 0)
       (Some (4, 5, 6)) (Some (7, 8, 9)))"
  using Monaghan_shear_forces_no_throw [of 0 5 1 1 "(1, 0, 0)" "(0, 0, 0)" 1 2 3 1 1 1
      "(1, 0, 0)" "Some (4, 5, 6)" "Some (7, 8, 9)"]
  by simp

text \<open>
  C10. In both variants \<open>specific_coefficient\<close> guards its two scalar outputs: a null
  \<open>speccoeff_ij\<close> stays null and \<open>speccoeff_ji\<close> receives what it receives otherwise, and
  the same with the two exchanged. The values written are those of the variant.
\<close>

theorem specific_coefficient_guards_outputs:
  "specific_coefficient f dens_i dens_j mass_i mass_j dWdrij dWdrji None speccoeff_ji
     = (None, snd (specific_coefficient f dens_i dens_j mass_i mass_j dWdrij dWdrji (Some x)
                     speccoeff_ji))
   \<and> specific_coefficient f dens_i dens_j mass_i mass_j dWdrij dWdrji speccoeff_ij None
     = (fst (specific_coefficient f dens_i dens_j mass_i mass_j dWdrij dWdrji speccoeff_ij
               (Some y)), None)
   \<and> specific_coefficient f dens_i dens_j mass_i mass_j dWdrij dWdrji (Some x) (Some y)
     = (case f of
          Monaghan \<Rightarrow> (Some (dWdrij * mass_j), Some (dWdrji * mass_i))
        | Adami \<Rightarrow>
            (Some (((mass_i / dens_i) * (mass_i / dens_i) + (mass_j / dens_j) * (mass_j / dens_j))
                     * (dWdrij / mass_i)),
             Some (((mass_i / dens_i) * (mass_i / dens_i) + (mass_j / dens_j) * (mass_j / dens_j))
                     * (dWdrji / mass_j))))"
  by (cases f; simp add: specific_coefficient_def Monaghan_specific_coefficient_def
      Adami_specific_coefficient_def Let_def pow_2_def)

end
